theory Spec2Isabelle
  imports Complex_Main "HOL-Library.Word" "HOL-Library.Sublist"
begin

section \<open>Data model\<close>

text \<open>
  The exporter's package \<open>prometheus\<close> (the collector, the refresh pass and the scrape
  path) is embedded function by function. Library and collaborator code that the
  package calls but does not contain is either taken as a parameter (the remote query
  transport, the path extractor, \<open>strconv.ParseFloat\<close>, the clock) or modelled from
  its documented behaviour (the metric vectors of the Prometheus client,
  \<open>json.Unmarshal\<close> into the \<open>Graphql\<close> struct, \<open>strings.Replace\<close>).
  A \<open>float64\<close> is idealised as a real number; a Go \<open>error\<close> is its message and
  \<open>None\<close> stands for \<open>nil\<close>. Output written to the log is not part of the model.
\<close>

type_synonym float64 = real
type_synonym error = string
type_synonym int64 = "64 word"

subsection \<open>Configuration (package config)\<close>

record config_Metric =
  Description :: string
  MetricType :: string
  Placeholder :: string
  Labels :: "string list"
  Value :: string
  Name :: string

record config_Query =
  Query :: string
  Subsystem :: string
  Metrics :: "config_Metric list"

text \<open>
  \<open>LabelPathSeparator\<close> is read by \<open>newGraphqlCollector\<close> but is not declared in the
  \<open>Cfg\<close> struct at hand; it is carried as one more field.
\<close>

record config_Cfg =
  MetricsPrefix :: string
  GraphqlURL :: string
  GraphqlAPIToken :: string
  CacheExpire :: int64
  QueryTimeout :: int64
  FailFast :: bool
  ExtendCacheOnError :: bool
  LabelPathSeparator :: string
  Queries :: "config_Query list"

subsection \<open>Metric vectors of the Prometheus client\<close>

record Opts =
  Namespace :: string
  Subsystem :: string
  Name :: string
  Help :: string

text \<open>
  A metric vector holds one child per label-value tuple. A histogram child is the
  sequence of its observations (sum, count and bucket counts are functions of it), a
  gauge or counter child is its current value. The constructors carry the options, the
  bucket bounds (histogram only), the declared label names and the children.
\<close>

datatype Collector =
    HistogramVec Opts "float64 list" "string list" "string list \<rightharpoonup> float64 list"
  | GaugeVec Opts "string list" "string list \<rightharpoonup> float64"
  | CounterVec Opts "string list" "string list \<rightharpoonup> float64"

definition latencyHistogramBuckets :: "float64 list" where
  "latencyHistogramBuckets =
     [1/10, 1/4, 1/2, 1, 5/2, 5, 10, 15, 20, 30, 40, 50, 60, 90, 150, 210, 270, 330,
      390, 450, 500, 600, 1200, 1800, 2700, 3600]"

text \<open>
  \<open>v.WithLabelValues(labels...)\<close> panics when the number of values differs from the number
  of declared label names; \<open>None\<close> is that panic. \<open>Observe\<close> appends to the child,
  \<open>Set\<close> overwrites it, \<open>Add\<close> adds to it and panics on a negative argument. A child
  that does not exist yet is created empty (histogram) or at zero (gauge, counter).
  The other panics of the library (a histogram label named \<open>le\<close>, a label value that
  is not UTF-8) are left out.
\<close>

definition Observe :: "string list \<Rightarrow> (string list \<rightharpoonup> float64 list) \<Rightarrow> string list \<Rightarrow> float64
    \<Rightarrow> (string list \<rightharpoonup> float64 list) option" where
  "Observe names m labels f =
     (if length labels \<noteq> length names then None
      else Some (m(labels \<mapsto> (case m labels of None \<Rightarrow> [f] | Some obs \<Rightarrow> obs @ [f]))))"

definition Set_gauge :: "string list \<Rightarrow> (string list \<rightharpoonup> float64) \<Rightarrow> string list \<Rightarrow> float64
    \<Rightarrow> (string list \<rightharpoonup> float64) option" where
  "Set_gauge names m labels f =
     (if length labels \<noteq> length names then None else Some (m(labels \<mapsto> f)))"

definition Add :: "string list \<Rightarrow> (string list \<rightharpoonup> float64) \<Rightarrow> string list \<Rightarrow> float64
    \<Rightarrow> (string list \<rightharpoonup> float64) option" where
  "Add names m labels f =
     (if length labels \<noteq> length names then None
      else if f < 0 then None
      else Some (m(labels \<mapsto> (case m labels of None \<Rightarrow> f | Some v \<Rightarrow> v + f))))"

subsection \<open>The collector (package prometheus)\<close>

text \<open>
  The extractor type and its methods live in a file that is not at hand: the type is the
  parameter \<open>'x\<close>, and \<open>NewExtractor\<close>, \<open>GetSortedPaths\<close> and \<open>ExtractMetrics\<close>
  are parameters of the functions that call them.
\<close>

record 'x Metric =
  Collector :: Collector
  Config :: config_Metric
  Extractor :: 'x

record 'x QuerySet =
  Query :: string
  Metrics :: "'x Metric list"

record 'x GraphqlCollector =
  cachedQuerySet :: "'x QuerySet list"
  cachedAt :: int64
  updaterIsRunning :: bool
  graphqlURL :: string

section \<open>Value coercion: the callback of getMetrics\<close>

text \<open>
  \<open>strconv.ParseFloat(value, 64)\<close> is the parameter \<open>parseFloat\<close>; it returns the
  number together with the error (\<open>0\<close> and a syntax error for text that is not a number).
  The callback returns the collector after the sample, \<open>None\<close> when it panics.
  In the histogram and gauge cases the error is only logged: control continues to
  \<open>Observe\<close> and \<open>Set\<close> with the returned number.
\<close>

definition callbackFunc :: "(string \<Rightarrow> float64 \<times> error option) \<Rightarrow> Collector \<Rightarrow> string \<Rightarrow> string list
    \<Rightarrow> Collector option" where
  "callbackFunc parseFloat c val labels =
     (if val = [] then Some c
      else case c of
        HistogramVec opts buckets names m \<Rightarrow>
          (case parseFloat val of (f, err) \<Rightarrow>
             map_option (HistogramVec opts buckets names) (Observe names m labels f))
      | GaugeVec opts names m \<Rightarrow>
          (case parseFloat val of (f, err) \<Rightarrow>
             map_option (GaugeVec opts names) (Set_gauge names m labels f))
      | CounterVec opts names m \<Rightarrow>
          (case parseFloat val of (f, err) \<Rightarrow>
             map_option (CounterVec opts names)
               (Add names m labels (if err \<noteq> None \<or> f < 0 then 1 else f))))"

section \<open>Compiling the configuration: newGraphqlCollector\<close>

text \<open>
  \<open>strings.Replace(s, old, new, -1)\<close>: every non-overlapping occurrence of \<open>old\<close>, from
  the left; an empty \<open>old\<close> matches before every character and at the end.
\<close>

function Replace :: "string \<Rightarrow> string \<Rightarrow> string \<Rightarrow> string" where
  "Replace [] old new = (if old = [] then new else [])"
| "Replace (c # cs) old new =
     (if old = [] then new @ c # Replace cs old new
      else if prefix old (c # cs) then new @ Replace (drop (length old) (c # cs)) old new
      else c # Replace cs old new)"
  by pat_completeness auto
termination
  by (relation "measure (\<lambda>(s, old, new). length s)") auto

text \<open>
  The body of the inner loop, for one configured metric \<open>m\<close> of the query \<open>q\<close>. The
  error of \<open>NewExtractor\<close> is only logged; the extractor it returned is used all the
  same and the metric is appended. The \<open>switch\<close> has two branches: \<open>histogram\<close> and
  \<open>default\<close>.
\<close>

definition newGraphqlCollector_metric ::
  "(string \<Rightarrow> string \<Rightarrow> string list \<Rightarrow> 'x \<times> error option) \<Rightarrow> ('x \<Rightarrow> string list)
    \<Rightarrow> config_Cfg \<Rightarrow> config_Query \<Rightarrow> config_Metric \<Rightarrow> 'x Metric" where
  "newGraphqlCollector_metric NewExtractor GetSortedPaths cfg q m =
     (case NewExtractor (LabelPathSeparator cfg) (Value m) (Labels m) of (extractor, err) \<Rightarrow>
        let name = (if config_Metric.Name m = [] then MetricsPrefix cfg @ Replace (Value m) '','' ''_''
                    else config_Metric.Name m);
            labels = map (\<lambda>label. Replace (Replace label ''.*.'' ''_'') ''.'' ''_'')
                       (GetSortedPaths extractor);
            opts = \<lparr>Namespace = MetricsPrefix cfg, Subsystem = config_Query.Subsystem q,
                    Name = name, Help = Description m\<rparr>;
            collector = (if MetricType m = ''histogram''
                         then HistogramVec opts latencyHistogramBuckets labels Map.empty
                         else GaugeVec opts labels Map.empty)
        in \<lparr>Collector = collector, Config = m, Extractor = extractor\<rparr>)"

definition newGraphqlCollector ::
  "(string \<Rightarrow> string \<Rightarrow> string list \<Rightarrow> 'x \<times> error option) \<Rightarrow> ('x \<Rightarrow> string list)
    \<Rightarrow> config_Cfg \<Rightarrow> 'x GraphqlCollector" where
  "newGraphqlCollector NewExtractor GetSortedPaths cfg =
     \<lparr>cachedQuerySet =
        map (\<lambda>q. \<lparr>Query = config_Query.Query q,
                  Metrics = map (newGraphqlCollector_metric NewExtractor GetSortedPaths cfg q)
                              (config_Query.Metrics q)\<rparr>)
            (Queries cfg),
      cachedAt = 0, updaterIsRunning = False, graphqlURL = GraphqlURL cfg\<rparr>"

section \<open>Decoding a response\<close>

text \<open>
  A response body is either not JSON at all or a JSON document. A value decoded into
  \<open>interface{}\<close> is represented by the document itself. \<open>Data\<close> is a Go map, and
  \<open>None\<close> is the nil map.
\<close>

datatype json =
    JNull | JBool bool | JNumber float64 | JString string
  | JArray "json list" | JObject "(string \<times> json) list"

datatype body = Malformed | Document json

record Graphql =
  Data :: "(string \<rightharpoonup> json) option"

text \<open>
  A key of the top-level object selects the field \<open>Data\<close> when it equals the field name
  up to letter case.
\<close>

definition isDataKey :: "string \<Rightarrow> bool" where
  "isDataKey k = list_all2 (\<lambda>c (lo, up). c = lo \<or> c = up) k
     [(CHR ''d'', CHR ''D''), (CHR ''a'', CHR ''A''), (CHR ''t'', CHR ''T''), (CHR ''a'', CHR ''A'')]"

text \<open>
  One member of the top-level object stored into the struct: \<open>null\<close> sets the map to nil;
  an object is stored into the existing map, which is allocated only when it is nil, so
  entries already present stay; any other value is a type error, which is remembered
  (the first one is returned) while decoding goes on. Other keys are ignored.
\<close>

fun Unmarshal_member :: "string \<times> json \<Rightarrow> Graphql \<times> error option \<Rightarrow> Graphql \<times> error option" where
  "Unmarshal_member (k, v) (g, err) =
     (if \<not> isDataKey k then (g, err)
      else case v of
        JNull \<Rightarrow> (g\<lparr>Data := None\<rparr>, err)
      | JObject kvs \<Rightarrow>
          (g\<lparr>Data := Some (fold (\<lambda>(k', v') m. m(k' \<mapsto> v')) kvs
                             (case Data g of None \<Rightarrow> Map.empty | Some m \<Rightarrow> m))\<rparr>, err)
      | _ \<Rightarrow> (g, (case err of None \<Rightarrow> Some ''UnmarshalTypeError'' | Some e \<Rightarrow> Some e)))"

text \<open>
  \<open>json.Unmarshal(result, &gql)\<close> with \<open>gql\<close> of type \<open>*Graphql\<close>: invalid input is
  rejected before anything is stored; the document \<open>null\<close> sets the pointer to nil;
  otherwise a nil pointer is replaced by a fresh struct and the value pointed at is
  decoded into, not replaced.
\<close>

fun Unmarshal :: "body \<Rightarrow> Graphql option \<Rightarrow> Graphql option \<times> error option" where
  "Unmarshal Malformed gql = (gql, Some ''SyntaxError'')"
| "Unmarshal (Document JNull) gql = (None, None)"
| "Unmarshal (Document (JObject members)) gql =
     (case fold Unmarshal_member members
             ((case gql of None \<Rightarrow> \<lparr>Data = None\<rparr> | Some g \<Rightarrow> g), None) of
        (g, err) \<Rightarrow> (Some g, err))"
| "Unmarshal (Document v) gql =
     (Some (case gql of None \<Rightarrow> \<lparr>Data = None\<rparr> | Some g \<Rightarrow> g), Some ''UnmarshalTypeError'')"

section \<open>The refresh pass: getMetrics\<close>

text \<open>
  The collaborators of a pass. The state of everything outside the process (the remote
  server, the clock) is a value of type \<open>'w\<close>: a query returns its result together with
  the state it leaves behind, and \<open>Now\<close> reads \<open>time.Now().Unix()\<close> off that state.
  \<open>ExtractMetrics\<close> gives the sequence of \<open>(value, labels)\<close> arguments with which the
  extractor invokes the callback, in order.
\<close>

record ('x, 'w) env =
  GraphqlQuery :: "'w \<Rightarrow> string \<Rightarrow> (error + body) \<times> 'w"
  Now :: "'w \<Rightarrow> int64"
  ParseFloat :: "string \<Rightarrow> float64 \<times> error option"
  ExtractMetrics :: "'x \<Rightarrow> (string \<rightharpoonup> json) \<Rightarrow> (string \<times> string list) list"

text \<open>\<open>m.Extractor.ExtractMetrics(data, callbackFunc)\<close>: the callback, sample by sample.\<close>

fun ExtractMetrics_callbacks :: "(string \<Rightarrow> float64 \<times> error option) \<Rightarrow> Collector
    \<Rightarrow> (string \<times> string list) list \<Rightarrow> Collector option" where
  "ExtractMetrics_callbacks pf c [] = Some c"
| "ExtractMetrics_callbacks pf c ((val, labels) # rest) =
     (case callbackFunc pf c val labels of
        None \<Rightarrow> None
      | Some c' \<Rightarrow> ExtractMetrics_callbacks pf c' rest)"

text \<open>The inner loop \<open>for _, m := range q.Metrics\<close>.\<close>

fun getMetrics_metrics :: "('x, 'w) env \<Rightarrow> (string \<rightharpoonup> json) \<Rightarrow> 'x Metric list
    \<Rightarrow> 'x Metric list option" where
  "getMetrics_metrics e d [] = Some []"
| "getMetrics_metrics e d (m # ms) =
     (case ExtractMetrics_callbacks (ParseFloat e) (Collector m) (ExtractMetrics e (Extractor m) d) of
        None \<Rightarrow> None
      | Some c' \<Rightarrow> map_option ((#) (m\<lparr>Collector := c'\<rparr>)) (getMetrics_metrics e d ms))"

text \<open>
  What a pass leaves behind: a panic, which ends the process, or the returned error, the
  query sets with their collectors as the pass left them, the outside state, and the last
  value of the local variable \<open>gql\<close> (which the caller never sees).
\<close>

datatype ('x, 'w) outcome =
    Panic
  | Return (returned: "error option") (sets: "'x QuerySet list") (outside: 'w)
      (decoded: "Graphql option")

fun continue_with :: "'x QuerySet \<Rightarrow> ('x, 'w) outcome \<Rightarrow> ('x, 'w) outcome" where
  "continue_with q Panic = Panic"
| "continue_with q (Return err qs w gql) = Return err (q # qs) w gql"

text \<open>
  The outer loop. The variable \<open>gql\<close> is declared once, before the loop, and every
  iteration decodes into it; it is an argument of the loop. Reading \<open>gql.Data\<close> through
  a nil pointer panics.
\<close>

fun getMetrics_queries :: "('x, 'w) env \<Rightarrow> config_Cfg \<Rightarrow> 'w \<Rightarrow> Graphql option \<Rightarrow> 'x QuerySet list
    \<Rightarrow> ('x, 'w) outcome" where
  "getMetrics_queries e cfg w gql [] = Return None [] w gql"
| "getMetrics_queries e cfg w gql (q # qs) =
     (case GraphqlQuery e w (Query q) of
        (Inl err, w') \<Rightarrow>
          if FailFast cfg then Return (Some err) (q # qs) w' gql
          else continue_with q (getMetrics_queries e cfg w' gql qs)
      | (Inr result, w') \<Rightarrow>
          (case Unmarshal result gql of
             (gql', Some err) \<Rightarrow>
               if FailFast cfg then Return (Some err) (q # qs) w' gql'
               else continue_with q (getMetrics_queries e cfg w' gql' qs)
           | (None, None) \<Rightarrow> Panic
           | (Some g, None) \<Rightarrow>
               (case Data g of
                  None \<Rightarrow> continue_with q (getMetrics_queries e cfg w' (Some g) qs)
                | Some d \<Rightarrow>
                    (case getMetrics_metrics e d (Metrics q) of
                       None \<Rightarrow> Panic
                     | Some ms \<Rightarrow>
                         continue_with (q\<lparr>Metrics := ms\<rparr>)
                           (getMetrics_queries e cfg w' (Some g) qs)))))"

definition getMetrics :: "('x, 'w) env \<Rightarrow> config_Cfg \<Rightarrow> 'w \<Rightarrow> 'x GraphqlCollector \<Rightarrow> ('x, 'w) outcome" where
  "getMetrics e cfg w collector = getMetrics_queries e cfg w None (cachedQuerySet collector)"

section \<open>Refreshing the cache: updateMetrics\<close>

text \<open>
  The test of line 189, on 64-bit signed integers: the difference wraps, the comparison
  is signed.
\<close>

definition updateMetrics_due :: "('x, 'w) env \<Rightarrow> config_Cfg \<Rightarrow> 'w \<Rightarrow> 'x GraphqlCollector \<Rightarrow> bool" where
  "updateMetrics_due e cfg w collector =
     (sint (CacheExpire cfg) < sint (Now e w - cachedAt collector))"

text \<open>
  The body of the \<open>if\<close>, executed while \<open>accessMu\<close> is held: the pass, then the new
  timestamp, read from the clock after the pass has returned.
\<close>

definition updateMetrics_locked :: "('x, 'w) env \<Rightarrow> config_Cfg \<Rightarrow> 'w \<Rightarrow> 'x GraphqlCollector
    \<Rightarrow> (error option \<times> 'x GraphqlCollector \<times> 'w) option" where
  "updateMetrics_locked e cfg w collector =
     (case getMetrics e cfg w collector of
        Panic \<Rightarrow> None
      | Return (Some err) qs w' gql \<Rightarrow>
          Some (Some err,
                collector\<lparr>cachedQuerySet := qs,
                           cachedAt := (if ExtendCacheOnError cfg then Now e w'
                                        else cachedAt collector)\<rparr>,
                w')
      | Return None qs w' gql \<Rightarrow>
          Some (None, collector\<lparr>cachedQuerySet := qs, cachedAt := Now e w'\<rparr>, w'))"


section \<open>The scrape: atomicUpdate and Collect\<close>

text \<open>
  The critical section of \<open>atomicUpdate\<close>: it returns the local \<open>start\<close>, which decides
  whether the caller spawns the refresh goroutine.
\<close>

definition atomicUpdate :: "'x GraphqlCollector \<Rightarrow> bool \<times> 'x GraphqlCollector" where
  "atomicUpdate collector =
     (\<not> updaterIsRunning collector, collector\<lparr>updaterIsRunning := True\<rparr>)"

text \<open>
  The emission loops of \<open>Collect\<close>. \<open>c.Collect(ch)\<close> sends the children of the vector as
  they are; what is sent is represented by the vector itself. \<open>Reset\<close> deletes every child.
\<close>

fun Collect_metric :: "'x Metric \<Rightarrow> Collector list \<times> 'x Metric" where
  "Collect_metric metric =
     (case Collector metric of
        CounterVec opts names m \<Rightarrow> ([CounterVec opts names m], metric)
      | GaugeVec opts names m \<Rightarrow> ([GaugeVec opts names m], metric)
      | HistogramVec opts buckets names m \<Rightarrow>
          ([HistogramVec opts buckets names m],
           metric\<lparr>Collector := HistogramVec opts buckets names Map.empty\<rparr>))"

fun Collect_metrics :: "'x Metric list \<Rightarrow> Collector list \<times> 'x Metric list" where
  "Collect_metrics [] = ([], [])"
| "Collect_metrics (metric # rest) =
     (case Collect_metric metric of (out, metric') \<Rightarrow>
        case Collect_metrics rest of (outs, rest') \<Rightarrow> (out @ outs, metric' # rest'))"

fun Collect_querySets :: "'x QuerySet list \<Rightarrow> Collector list \<times> 'x QuerySet list" where
  "Collect_querySets [] = ([], [])"
| "Collect_querySets (querySet # rest) =
     (case Collect_metrics (Metrics querySet) of (out, ms) \<Rightarrow>
        case Collect_querySets rest of (outs, rest') \<Rightarrow>
          (out @ outs, querySet\<lparr>Metrics := ms\<rparr> # rest'))"

text \<open>
  A scrape that runs from its first line to its last with no step of another goroutine
  in between: whether it spawns a refresh, what it sends, and the collector afterwards.
\<close>

definition Collect :: "'x GraphqlCollector \<Rightarrow> bool \<times> Collector list \<times> 'x GraphqlCollector" where
  "Collect collector =
     (case atomicUpdate collector of (start, c1) \<Rightarrow>
        case Collect_querySets (cachedQuerySet c1) of (out, qs) \<Rightarrow>
          (start, out, c1\<lparr>cachedQuerySet := qs\<rparr>))"

section \<open>Scrapes and refreshes as interleaved goroutines\<close>

text \<open>
  Every goroutine is at one of the following points. A scrape (a call of \<open>Collect\<close>):
  before the critical section of \<open>atomicUpdate\<close>; after it, holding the local
  \<open>start\<close> and about to spawn or not; at \<open>accessMu.Lock()\<close> of line 223; emitting while
  it holds \<open>accessMu\<close>; returned, with what it sent. A refresh goroutine (lines 212 to 217):
  at the test of line 189; at \<open>accessMu.Lock()\<close> of line 190; in the pass while it holds
  \<open>accessMu\<close>; at the critical section that clears the flag; finished.
\<close>

datatype thread =
    Scrape_atomicUpdate
  | Scrape_spawn bool
  | Scrape_lock
  | Scrape_emit
  | Scrape_done "Collector list"
  | Refresh_check
  | Refresh_lock
  | Refresh_pass
  | Refresh_clear
  | Refresh_done

record ('x, 'w) system =
  collector :: "'x GraphqlCollector"
  accessMu :: bool
  world :: 'w
  threads :: "thread list"
  crashed :: bool

text \<open>
  One step of goroutine \<open>i\<close>; \<open>None\<close> when it cannot take one: it waits for a mutex
  that is held, it has finished, or the process has ended in a panic. The two critical
  sections under \<open>updaterMu\<close> are single statements' worth of work and are one step each.
\<close>

definition step :: "('x, 'w) env \<Rightarrow> config_Cfg \<Rightarrow> ('x, 'w) system \<Rightarrow> nat \<Rightarrow> ('x, 'w) system option" where
  "step e cfg s i =
     (if crashed s \<or> length (threads s) \<le> i then None
      else case threads s ! i of
        Scrape_atomicUpdate \<Rightarrow>
          (case atomicUpdate (collector s) of (start, c') \<Rightarrow>
             Some (s\<lparr>collector := c', threads := (threads s)[i := Scrape_spawn start]\<rparr>))
      | Scrape_spawn start \<Rightarrow>
          Some (s\<lparr>threads := (threads s)[i := Scrape_lock] @ (if start then [Refresh_check] else [])\<rparr>)
      | Scrape_lock \<Rightarrow>
          if accessMu s then None
          else Some (s\<lparr>accessMu := True, threads := (threads s)[i := Scrape_emit]\<rparr>)
      | Scrape_emit \<Rightarrow>
          (case Collect_querySets (cachedQuerySet (collector s)) of (out, qs) \<Rightarrow>
             Some (s\<lparr>collector := (collector s)\<lparr>cachedQuerySet := qs\<rparr>, accessMu := False,
                     threads := (threads s)[i := Scrape_done out]\<rparr>))
      | Scrape_done out \<Rightarrow> None
      | Refresh_check \<Rightarrow>
          Some (s\<lparr>threads := (threads s)[i := (if updateMetrics_due e cfg (world s) (collector s)
                                                then Refresh_lock else Refresh_clear)]\<rparr>)
      | Refresh_lock \<Rightarrow>
          if accessMu s then None
          else Some (s\<lparr>accessMu := True, threads := (threads s)[i := Refresh_pass]\<rparr>)
      | Refresh_pass \<Rightarrow>
          (case updateMetrics_locked e cfg (world s) (collector s) of
             None \<Rightarrow> Some (s\<lparr>crashed := True\<rparr>)
           | Some (err, c', w') \<Rightarrow>
               Some (s\<lparr>collector := c', world := w', accessMu := False,
                       threads := (threads s)[i := Refresh_clear]\<rparr>))
      | Refresh_clear \<Rightarrow>
          Some (s\<lparr>collector := (collector s)\<lparr>updaterIsRunning := False\<rparr>,
                  threads := (threads s)[i := Refresh_done]\<rparr>)
      | Refresh_done \<Rightarrow> None)"

text \<open>
  A schedule is a sequence of events: a new scrape arrives, or goroutine \<open>i\<close> is given
  the processor; a goroutine that cannot step leaves the state as it is.
\<close>

datatype event = Arrive | Step nat

fun exec :: "('x, 'w) env \<Rightarrow> config_Cfg \<Rightarrow> ('x, 'w) system \<Rightarrow> event \<Rightarrow> ('x, 'w) system" where
  "exec e cfg s Arrive = s\<lparr>threads := threads s @ [Scrape_atomicUpdate]\<rparr>"
| "exec e cfg s (Step i) = (case step e cfg s i of None \<Rightarrow> s | Some s' \<Rightarrow> s')"

definition run :: "('x, 'w) env \<Rightarrow> config_Cfg \<Rightarrow> event list \<Rightarrow> ('x, 'w) system \<Rightarrow> ('x, 'w) system" where
  "run e cfg evs s = foldl (exec e cfg) s evs"

text \<open>The process after \<open>Start\<close> has registered the collector: no goroutine yet.\<close>

definition boot :: "'x GraphqlCollector \<Rightarrow> 'w \<Rightarrow> ('x, 'w) system" where
  "boot c w = \<lparr>collector = c, accessMu = False, world = w, threads = [], crashed = False\<rparr>"

text \<open>
  A refresh task exists from the moment a scrape has decided to spawn it until it has
  cleared the flag. A holder of \<open>accessMu\<close> is an emitting scrape or a refresh in its pass.
\<close>

fun is_task :: "thread \<Rightarrow> bool" where
  "is_task (Scrape_spawn start) = start"
| "is_task Refresh_check = True"
| "is_task Refresh_lock = True"
| "is_task Refresh_pass = True"
| "is_task Refresh_clear = True"
| "is_task t = False"

fun is_holder :: "thread \<Rightarrow> bool" where
  "is_holder Scrape_emit = True"
| "is_holder Refresh_pass = True"
| "is_holder t = False"

definition tasks :: "('x, 'w) system \<Rightarrow> nat" where
  "tasks s = length (filter is_task (threads s))"

definition holders :: "('x, 'w) system \<Rightarrow> nat" where
  "holders s = length (filter is_holder (threads s))"

section \<open>Auxiliary notions for the statements\<close>

text \<open>
  What a scrape leaves of a collector it has streamed, in the words of the specification:
  a histogram is emptied, a gauge or counter is left as it is.
\<close>

fun after_scrape :: "Collector \<Rightarrow> Collector" where
  "after_scrape (HistogramVec opts buckets names m) = HistogramVec opts buckets names Map.empty"
| "after_scrape c = c"

definition scraped :: "'x QuerySet \<Rightarrow> 'x QuerySet" where
  "scraped q = q\<lparr>Metrics := map (\<lambda>m. m\<lparr>Collector := after_scrape (Collector m)\<rparr>) (Metrics q)\<rparr>"

definition all_collectors :: "'x QuerySet list \<Rightarrow> Collector list" where
  "all_collectors qs = concat (map (\<lambda>q. map Collector (Metrics q)) qs)"

text \<open>The child of a vector for a label tuple, if it exists.\<close>

fun value_child :: "Collector \<Rightarrow> string list \<Rightarrow> float64 option" where
  "value_child (GaugeVec opts names m) labels = m labels"
| "value_child (CounterVec opts names m) labels = m labels"
| "value_child (HistogramVec opts buckets names m) labels = None"

text \<open>
  Single flight: at most one refresh task, and the flag is set exactly while there is one.
  Exclusive access: at most one holder of \<open>accessMu\<close>, which is locked exactly while
  there is one.
\<close>

definition single_flight :: "('x, 'w) system \<Rightarrow> bool" where
  "single_flight s = (tasks s \<le> 1 \<and> updaterIsRunning (collector s) = (tasks s = 1))"

definition exclusive_access :: "('x, 'w) system \<Rightarrow> bool" where
  "exclusive_access s = (holders s \<le> 1 \<and> accessMu s = (holders s = 1))"

subsection \<open>A concrete environment\<close>

text \<open>
  \<open>strconv.ParseFloat\<close> on plain decimal literals (an optional sign, digits, an optional
  fraction); every other text is a syntax error here, with result \<open>0\<close>.
\<close>

definition is_digit :: "char \<Rightarrow> bool" where
  "is_digit c = ((48::nat) \<le> of_char c \<and> (of_char c :: nat) \<le> 57)"

definition digits_value :: "string \<Rightarrow> nat" where
  "digits_value ds = foldl (\<lambda>n c. 10 * n + (of_char c - 48)) 0 ds"

definition ParseFloat_decimal :: "string \<Rightarrow> float64 \<times> error option" where
  "ParseFloat_decimal s =
     (case (case s of
              c # r \<Rightarrow> if c = CHR ''-'' then (True, r) else if c = CHR ''+'' then (False, r)
                       else (False, s)
            | [] \<Rightarrow> (False, s)) of
        (neg, r) \<Rightarrow>
          let ip = takeWhile is_digit r;
              rest = dropWhile is_digit r;
              fp = (case rest of c # f \<Rightarrow> if c = CHR ''.'' then Some f else None | [] \<Rightarrow> Some [])
          in case fp of
               None \<Rightarrow> (0, Some ''invalid syntax'')
             | Some f \<Rightarrow>
                 if list_all is_digit f \<and> (ip \<noteq> [] \<or> f \<noteq> [])
                 then ((if neg then -1 else 1) *
                        (real (digits_value ip) + real (digits_value f) / 10 ^ length f), None)
                 else (0, Some ''invalid syntax''))"

text \<open>
  A remote server: \<open>{ users }\<close> answers with data, \<open>{ orders }\<close> answers with an
  object that has no \<open>data\<close> member, \<open>{ broken }\<close> answers with bytes that are not
  JSON, anything else times out. The
  outside state is the clock in seconds and the queries issued so far; every query takes
  thirty seconds. An extractor is the name of a top-level member of the data, whose string
  value it reports without labels. The metric of \<open>{ orders }\<close> reads the member
  \<open>users\<close>, which only the answer to \<open>{ users }\<close> has.
\<close>

definition example_env :: "(string, nat \<times> string list) env" where
  "example_env =
     \<lparr>GraphqlQuery = (\<lambda>(t, issued) q.
         ((if q = ''{ users }''
           then Inr (Document (JObject [(''data'', JObject [(''users'', JString ''3.5'')])]))
           else if q = ''{ orders }''
           then Inr (Document (JObject [(''errors'', JArray [])]))
           else if q = ''{ broken }'' then Inr Malformed
           else Inl ''timeout''),
          (t + 30, issued @ [q]))),
      Now = (\<lambda>(t, issued). of_nat t),
      ParseFloat = ParseFloat_decimal,
      ExtractMetrics = (\<lambda>x d. case d x of Some (JString s) \<Rightarrow> [(s, [])] | _ \<Rightarrow> [])\<rparr>"

definition example_opts :: Opts where
  "example_opts = \<lparr>Namespace = ''gql_'', Subsystem = [], Name = ''gql_users'', Help = []\<rparr>"

definition example_NewExtractor :: "string \<Rightarrow> string \<Rightarrow> string list \<Rightarrow> string \<times> error option" where
  "example_NewExtractor sep val labels =
     (val, if val = [] then Some ''empty value path'' else None)"

definition example_metric :: "string \<Rightarrow> string \<Rightarrow> string \<Rightarrow> config_Metric" where
  "example_metric ty val name =
     \<lparr>Description = [], MetricType = ty, Placeholder = [], Labels = [], Value = val,
      config_Metric.Name = name\<rparr>"

definition example_cfg :: "config_Query list \<Rightarrow> config_Cfg" where
  "example_cfg qs =
     \<lparr>MetricsPrefix = ''gql_'', GraphqlURL = ''http://localhost/graphql'', GraphqlAPIToken = [],
      CacheExpire = 10, QueryTimeout = 60, FailFast = True, ExtendCacheOnError = True,
      LabelPathSeparator = ''.'', Queries = qs\<rparr>"

definition example_users :: config_Query where
  "example_users = \<lparr>config_Query.Query = ''{ users }'', config_Query.Subsystem = [],
      config_Query.Metrics = [example_metric ''gauge'' ''users'' []]\<rparr>"

definition example_down :: config_Query where
  "example_down = \<lparr>config_Query.Query = ''{ down }'', config_Query.Subsystem = [],
      config_Query.Metrics = [example_metric ''gauge'' ''down'' []]\<rparr>"

definition example_orders :: config_Query where
  "example_orders =
     \<lparr>config_Query.Query = ''{ orders }'', config_Query.Subsystem = [],
      config_Query.Metrics = [example_metric ''gauge'' ''users'' ''orders_seen'']\<rparr>"

definition example_broken :: config_Query where
  "example_broken =
     \<lparr>config_Query.Query = ''{ broken }'', config_Query.Subsystem = [],
      config_Query.Metrics = [example_metric ''gauge'' ''broken'' []]\<rparr>"

definition example_queries :: "config_Query list" where
  "example_queries = [example_users, example_down, example_orders]"

definition example_collector :: "config_Query list \<Rightarrow> string GraphqlCollector" where
  "example_collector qs = newGraphqlCollector example_NewExtractor (\<lambda>x. []) (example_cfg qs)"

text \<open>The example process at second 1000, before the first scrape.\<close>

definition example_boot :: "(string, nat \<times> string list) system" where
  "example_boot = boot (example_collector example_queries) (1000, [])"

section \<open>Value coercion\<close>

lemmas example_defs = example_collector_def example_cfg_def example_queries_def example_users_def
  example_down_def example_orders_def example_broken_def example_metric_def example_NewExtractor_def
  newGraphqlCollector_def newGraphqlCollector_metric_def example_env_def

lemma ParseFloat_decimal_abc: "ParseFloat_decimal ''abc'' = (0, Some ''invalid syntax'')"
  by (simp add: ParseFloat_decimal_def is_digit_def digits_value_def)

lemma ParseFloat_decimal_3_5: "ParseFloat_decimal ''3.5'' = (7/2, None)"
  by (simp add: ParseFloat_decimal_def is_digit_def digits_value_def)

lemma ParseFloat_decimal_minus_5: "ParseFloat_decimal ''-5'' = (-5, None)"
  by (simp add: ParseFloat_decimal_def is_digit_def digits_value_def)

lemma ParseFloat_decimal_text: "ParseFloat_decimal ''not-a-number'' = (0, Some ''invalid syntax'')"
  by (simp add: ParseFloat_decimal_def is_digit_def digits_value_def)

lemmas eval_defs = getMetrics_def isDataKey_def callbackFunc_def Set_gauge_def Observe_def
  ParseFloat_decimal_3_5 Let_def

text \<open>
  Claim C1 says that a gauge or histogram sample whose text fails to parse is dropped and
  leaves the child of its label tuple unchanged. The callback does otherwise: for a
  non-empty text and a label tuple of the declared length, a failed parse still sets the
  gauge to the number returned with the error, and still adds that number to the
  histogram's observations.
\<close>

theorem parse_failure_sample_is_applied:
  assumes "val \<noteq> []" and "length labels = length names" and "parseFloat val = (f, Some err)"
  shows "callbackFunc parseFloat (GaugeVec opts names m) val labels =
           Some (GaugeVec opts names (m(labels \<mapsto> f)))
       \<and> callbackFunc parseFloat (HistogramVec opts buckets names h) val labels =
           Some (HistogramVec opts buckets names
                  (h(labels \<mapsto> (case h labels of None \<Rightarrow> [] | Some obs \<Rightarrow> obs) @ [f])))"
  using assms by (auto simp: callbackFunc_def Set_gauge_def Observe_def split: option.splits)

text \<open>
  At the input \<open>abc\<close>: a gauge child that was \<open>7\<close> becomes \<open>0\<close>, and a histogram
  without observations gets the observation \<open>0\<close>.
\<close>

theorem parse_failure_sample_is_applied_witness:
  "callbackFunc ParseFloat_decimal (GaugeVec example_opts [''country''] [[''fr''] \<mapsto> 7])
       ''abc'' [''fr''] =
     Some (GaugeVec example_opts [''country''] [[''fr''] \<mapsto> 0])
   \<and> callbackFunc ParseFloat_decimal
       (HistogramVec example_opts latencyHistogramBuckets [''country''] Map.empty) ''abc'' [''fr''] =
     Some (HistogramVec example_opts latencyHistogramBuckets [''country''] [[''fr''] \<mapsto> [0]])"
  using parse_failure_sample_is_applied [of "''abc''" "[''fr'']" "[''country'']" ParseFloat_decimal 0
      "''invalid syntax''" example_opts "[[''fr''] \<mapsto> 7]" latencyHistogramBuckets Map.empty]
  by (simp add: ParseFloat_decimal_abc)

text \<open>
  The \<open>CounterVec\<close> case of the switch, taken alone: for a non-empty text and a label
  tuple of the declared length it adds \<open>1\<close> when parsing fails or the number is
  negative, and the number otherwise. No compiled metric holds a \<open>CounterVec\<close>, as the
  next section shows, so no sample of the program takes this case.
\<close>

lemma callbackFunc_CounterVec_adds:
  assumes "val \<noteq> []" and "length labels = length names"
  shows "callbackFunc parseFloat (CounterVec opts names m) val labels =
           Some (CounterVec opts names
                   (m(labels \<mapsto> (case m labels of None \<Rightarrow> 0 | Some v \<Rightarrow> v) +
                        (if snd (parseFloat val) \<noteq> None \<or> fst (parseFloat val) < 0 then 1
                         else fst (parseFloat val)))))"
  using assms by (auto simp: callbackFunc_def Add_def split: prod.splits option.splits)

section \<open>The compiled metrics\<close>

text \<open>
  Claim C2 says that the declared type \<open>counter\<close> gets a collector with add semantics.
  The compiler has no such case: a metric declared \<open>counter\<close> takes the default branch
  and gets a gauge vector, with the derived name, the derived label names and no child.
\<close>

theorem counter_type_compiles_to_gauge:
  "Collector (newGraphqlCollector_metric NewExtractor GetSortedPaths cfg q
       (m\<lparr>MetricType := ''counter''\<rparr>)) =
     GaugeVec \<lparr>Namespace = MetricsPrefix cfg, Subsystem = config_Query.Subsystem q,
               Name = (if config_Metric.Name m = []
                       then MetricsPrefix cfg @ Replace (Value m) '','' ''_''
                       else config_Metric.Name m),
               Help = Description m\<rparr>
       (map (\<lambda>label. Replace (Replace label ''.*.'' ''_'') ''.'' ''_'')
          (GetSortedPaths (fst (NewExtractor (LabelPathSeparator cfg) (Value m) (Labels m)))))
       Map.empty"
  by (simp add: newGraphqlCollector_metric_def Let_def split: prod.splits)

text \<open>
  A metric declared \<open>counter\<close> that receives the sample \<open>3.5\<close> twice stands at
  \<open>3.5\<close>, not at \<open>7\<close>: the second sample overwrites the first.
\<close>

theorem counter_type_compiles_to_gauge_witness:
  "map_option (\<lambda>c. value_child c [])
     (ExtractMetrics_callbacks ParseFloat_decimal
        (Collector (newGraphqlCollector_metric example_NewExtractor (\<lambda>x. []) (example_cfg [])
           example_users ((example_metric ''gauge'' ''users'' [])\<lparr>MetricType := ''counter''\<rparr>)))
        [(''3.5'', []), (''3.5'', [])]) = Some (Some (7/2))"
  by (subst counter_type_compiles_to_gauge)
    (simp add: callbackFunc_def Set_gauge_def ParseFloat_decimal_3_5)

text \<open>
  Claim C8 says that for a counter metric the extracted text is coerced to an increment
  (\<open>1\<close> on a parse failure or a negative number) that is always added, never set. A
  metric declared \<open>counter\<close> is compiled to a gauge vector, so its samples take the
  gauge case of the callback: for a non-empty text and a label tuple of the declared
  length, the child is set to the number that the parser returned, whatever the child was
  and whether or not the parser reported an error.
\<close>

theorem declared_counter_sample_is_set:
  assumes "val \<noteq> []"
    and "length labels =
      length (GetSortedPaths (fst (NewExtractor (LabelPathSeparator cfg) (Value m) (Labels m))))"
  shows "\<exists>opts names.
           Collector (newGraphqlCollector_metric NewExtractor GetSortedPaths cfg q
             (m\<lparr>MetricType := ''counter''\<rparr>)) = GaugeVec opts names Map.empty
         \<and> (\<forall>children.
              callbackFunc parseFloat (GaugeVec opts names children) val labels =
                Some (GaugeVec opts names (children(labels \<mapsto> fst (parseFloat val)))))"
  using assms
  by (simp add: newGraphqlCollector_metric_def Let_def callbackFunc_def Set_gauge_def
      split: prod.splits)

text \<open>
  A metric declared \<open>counter\<close> that has received \<open>3.5\<close>: the sample \<open>-5\<close> leaves
  it at \<open>-5\<close>, and the sample \<open>not-a-number\<close> leaves it at \<open>0\<close>.
\<close>

theorem declared_counter_sample_is_set_witness:
  "map_option (\<lambda>c. value_child c [])
     (ExtractMetrics_callbacks ParseFloat_decimal
        (Collector (newGraphqlCollector_metric example_NewExtractor (\<lambda>x. []) (example_cfg [])
           example_users ((example_metric ''gauge'' ''users'' [])\<lparr>MetricType := ''counter''\<rparr>)))
        [(''3.5'', []), (''-5'', [])]) = Some (Some (- 5))
   \<and> map_option (\<lambda>c. value_child c [])
     (ExtractMetrics_callbacks ParseFloat_decimal
        (Collector (newGraphqlCollector_metric example_NewExtractor (\<lambda>x. []) (example_cfg [])
           example_users ((example_metric ''gauge'' ''users'' [])\<lparr>MetricType := ''counter''\<rparr>)))
        [(''3.5'', []), (''not-a-number'', [])]) = Some (Some 0)"
proof -
  let ?m = "example_metric ''gauge'' ''users'' []"
  let ?c = "Collector (newGraphqlCollector_metric example_NewExtractor (\<lambda>x. []) (example_cfg [])
           example_users (?m\<lparr>MetricType := ''counter''\<rparr>))"
  note t = declared_counter_sample_is_set [where labels = "[]" and NewExtractor = example_NewExtractor
      and GetSortedPaths = "\<lambda>x. []" and cfg = "example_cfg []" and m = ?m and q = example_users
      and parseFloat = ParseFloat_decimal]
  have "\<exists>opts names. ?c = GaugeVec opts names Map.empty
      \<and> (\<forall>children. callbackFunc ParseFloat_decimal (GaugeVec opts names children) ''3.5'' [] =
            Some (GaugeVec opts names (children([] \<mapsto> 7/2))))"
    using t [where val = "''3.5''"] by (simp add: ParseFloat_decimal_3_5)
  then obtain opts names where c: "?c = GaugeVec opts names Map.empty"
    and a: "\<And>children. callbackFunc ParseFloat_decimal (GaugeVec opts names children) ''3.5'' [] =
        Some (GaugeVec opts names (children([] \<mapsto> 7/2)))"
    by blast
  have b: "callbackFunc ParseFloat_decimal (GaugeVec opts names children) ''-5'' [] =
        Some (GaugeVec opts names (children([] \<mapsto> - 5)))" for children
    using t [where val = "''-5''"] c by (simp add: ParseFloat_decimal_minus_5)
  have d: "callbackFunc ParseFloat_decimal (GaugeVec opts names children) ''not-a-number'' [] =
        Some (GaugeVec opts names (children([] \<mapsto> 0)))" for children
    using t [where val = "''not-a-number''"] c by (simp add: ParseFloat_decimal_text)
  show ?thesis
    by (simp add: c a b d)
qed

lemma Config_newGraphqlCollector_metric:
  "Config (newGraphqlCollector_metric NewExtractor GetSortedPaths cfg q m) = m"
  by (simp add: newGraphqlCollector_metric_def Let_def split: prod.splits)

lemma Extractor_newGraphqlCollector_metric:
  "Extractor (newGraphqlCollector_metric NewExtractor GetSortedPaths cfg q m) =
     fst (NewExtractor (LabelPathSeparator cfg) (Value m) (Labels m))"
  by (simp add: newGraphqlCollector_metric_def Let_def split: prod.splits)

text \<open>
  Claim C7 says that a metric whose extractor fails to compile is dropped from the
  compiled set. The compiler drops nothing: whatever \<open>NewExtractor\<close> returns, error or
  not, the compiled query sets hold every configured metric, in order, each bound to
  the extractor value that \<open>NewExtractor\<close> returned for it.
\<close>

theorem failed_extractor_metric_is_kept:
  "map (\<lambda>qs. map Config (Metrics qs))
       (cachedQuerySet (newGraphqlCollector NewExtractor GetSortedPaths cfg)) =
     map config_Query.Metrics (Queries cfg)
   \<and> map (\<lambda>qs. map Extractor (Metrics qs))
       (cachedQuerySet (newGraphqlCollector NewExtractor GetSortedPaths cfg)) =
     map (\<lambda>q. map (\<lambda>m. fst (NewExtractor (LabelPathSeparator cfg) (Value m) (Labels m)))
                 (config_Query.Metrics q))
       (Queries cfg)"
  by (simp add: newGraphqlCollector_def comp_def Config_newGraphqlCollector_metric
      Extractor_newGraphqlCollector_metric)

text \<open>
  The example \<open>NewExtractor\<close> rejects an empty value path; the metric with the empty
  value path is compiled all the same, next to the valid one.
\<close>

theorem failed_extractor_metric_is_kept_witness:
  "snd (example_NewExtractor ''.'' [] []) = Some ''empty value path''
   \<and> map (\<lambda>qs. map (\<lambda>m. (Value (Config m), Extractor m)) (Metrics qs))
       (cachedQuerySet (newGraphqlCollector example_NewExtractor (\<lambda>x. [])
          (example_cfg [example_users\<lparr>config_Query.Metrics :=
             [example_metric ''gauge'' [] ''broken_metric'', example_metric ''gauge'' ''users'' []]\<rparr>]))) =
     [[([], []), (''users'', ''users'')]]"
proof -
  let ?cfg = "example_cfg [example_users\<lparr>config_Query.Metrics :=
             [example_metric ''gauge'' [] ''broken_metric'', example_metric ''gauge'' ''users'' []]\<rparr>]"
  let ?c = "newGraphqlCollector example_NewExtractor (\<lambda>x. []) ?cfg"
  from failed_extractor_metric_is_kept [of example_NewExtractor "\<lambda>x. []" ?cfg]
  have "map (\<lambda>qs. map Config (Metrics qs)) (cachedQuerySet ?c) =
      [[example_metric ''gauge'' [] ''broken_metric'', example_metric ''gauge'' ''users'' []]]"
    and "map (\<lambda>qs. map Extractor (Metrics qs)) (cachedQuerySet ?c) = [[[], ''users'']]"
    by (simp_all add: example_cfg_def example_users_def example_metric_def example_NewExtractor_def)
  then show ?thesis
    by (simp add: example_defs)
qed

section \<open>Emission\<close>

lemma after_scrape_idem: "after_scrape (after_scrape c) = after_scrape c"
  by (cases c) simp_all

lemma Collect_metric_eq:
  "Collect_metric m = ([Collector m], m\<lparr>Collector := after_scrape (Collector m)\<rparr>)"
  by (cases "Collector m") simp_all

lemma Collect_metrics_eq:
  "Collect_metrics ms =
     (map Collector ms, map (\<lambda>m. m\<lparr>Collector := after_scrape (Collector m)\<rparr>) ms)"
  by (induction ms) (simp_all add: Collect_metric_eq del: Collect_metric.simps)

lemma Collect_querySets_eq:
  "Collect_querySets qs = (all_collectors qs, map scraped qs)"
  by (induction qs) (simp_all add: Collect_metrics_eq all_collectors_def scraped_def)

lemma all_collectors_scraped:
  "all_collectors (map scraped qs) = map after_scrape (all_collectors qs)"
  by (induction qs) (simp_all add: all_collectors_def scraped_def comp_def)

lemma scraped_idem: "scraped (scraped q) = scraped q"
  by (simp add: scraped_def comp_def after_scrape_idem)

text \<open>
  Claim C4: a scrape sends every collector as it stands; afterwards every histogram is
  empty and every gauge and counter is as before, everything else in the query sets being
  unchanged; a second scrape with no refresh in between therefore sends the histograms
  empty and the gauges and counters as the first scrape sent them, and changes nothing.
\<close>

theorem histogram_reset_after_scrape:
  "(case Collect c of (start, out, c') \<Rightarrow>
      out = all_collectors (cachedQuerySet c)
    \<and> cachedQuerySet c' = map scraped (cachedQuerySet c)
    \<and> (case Collect c' of (start2, out2, c'') \<Rightarrow>
         out2 = map after_scrape out \<and> cachedQuerySet c'' = cachedQuerySet c'))"
  by (simp add: Collect_def atomicUpdate_def Collect_querySets_eq all_collectors_scraped
      scraped_idem comp_def)

section \<open>The refresh pass\<close>

lemma continue_with_foldr_Return:
  "foldr continue_with pre (Return err qs w g) = Return err (pre @ qs) w g"
  by (induction pre) simp_all

lemma getMetrics_queries_append:
  "getMetrics_queries e cfg w gql (pre @ rest) =
     (case getMetrics_queries e cfg w gql pre of
        Panic \<Rightarrow> Panic
      | Return (Some err) pre' w1 g1 \<Rightarrow> Return (Some err) (pre' @ rest) w1 g1
      | Return None pre' w1 g1 \<Rightarrow> foldr continue_with pre' (getMetrics_queries e cfg w1 g1 rest))"
proof (induction pre arbitrary: w gql)
  case Nil
  then show ?case by simp
next
  case (Cons q pre)
  have cw: "\<And>q' r. continue_with q'
       (case r of Panic \<Rightarrow> Panic
        | Return None pre' w1 g1 \<Rightarrow> foldr continue_with pre' (getMetrics_queries e cfg w1 g1 rest)
        | Return (Some err) pre' w1 g1 \<Rightarrow> Return (Some err) (pre' @ rest) w1 g1) =
     (case continue_with q' r of Panic \<Rightarrow> Panic
        | Return None pre' w1 g1 \<Rightarrow> foldr continue_with pre' (getMetrics_queries e cfg w1 g1 rest)
        | Return (Some err) pre' w1 g1 \<Rightarrow> Return (Some err) (pre' @ rest) w1 g1)"
    by (case_tac r) (auto split: option.splits)
  show ?case
    by (simp add: Cons.IH cw split: prod.splits sum.splits option.splits)
qed

text \<open>
  Claim C5. Let the queries \<open>pre\<close> before \<open>q\<close> have been processed without an abort,
  leaving the query sets \<open>pre'\<close>, and let the query of \<open>q\<close> fail, in transport or in
  decoding, leaving the outside state \<open>w2\<close>. With \<open>failFast\<close> the pass returns the error
  at once: the outside state is \<open>w2\<close>, so no later query was issued, the query sets after
  \<open>q\<close> and \<open>q\<close> itself are untouched, and \<open>pre'\<close> keeps its updates. Without
  \<open>failFast\<close> the pass goes on with the next query set from \<open>w2\<close>, and \<open>q\<close> is left as
  it was.
\<close>

theorem failFast_aborts_else_continues:
  assumes "getMetrics_queries e cfg w gql pre = Return None pre' w1 g1"
    and "(GraphqlQuery e w1 (Query q) = (Inl err, w2) \<and> g2 = g1)
       \<or> (\<exists>result. GraphqlQuery e w1 (Query q) = (Inr result, w2)
             \<and> Unmarshal result g1 = (g2, Some err))"
  shows "getMetrics_queries e cfg w gql (pre @ q # qs) =
     (if FailFast cfg then Return (Some err) (pre' @ q # qs) w2 g2
      else foldr continue_with (pre' @ [q]) (getMetrics_queries e cfg w2 g2 qs))"
  using assms
  by (auto simp: getMetrics_queries_append continue_with_foldr_Return split: option.splits)

text \<open>
  On the example server, with the query sets \<open>{ users }\<close>, \<open>{ down }\<close> and
  \<open>{ orders }\<close>: with \<open>failFast\<close> the pass ends with the timeout after two queries
  and only the first gauge is set; without it the pass issues all three queries and
  returns no error, the gauge of \<open>{ down }\<close> being left without a child. With the
  query sets \<open>{ broken }\<close> and \<open>{ users }\<close> and \<open>failFast\<close>, the pass ends with the
  decoding error after one query.
\<close>

theorem failFast_aborts_else_continues_witness:
  "getMetrics example_env (example_cfg example_queries) (1000, []) (example_collector example_queries) \<noteq> Panic
   \<and> returned (getMetrics example_env (example_cfg example_queries) (1000, [])
        (example_collector example_queries)) = Some ''timeout''
   \<and> outside (getMetrics example_env (example_cfg example_queries) (1000, [])
        (example_collector example_queries)) = (1060, [''{ users }'', ''{ down }''])
   \<and> map (\<lambda>q. map (\<lambda>m. value_child (Collector m) []) (Metrics q))
        (sets (getMetrics example_env (example_cfg example_queries) (1000, [])
           (example_collector example_queries))) = [[Some (7/2)], [None], [None]]
   \<and> returned (getMetrics example_env ((example_cfg example_queries)\<lparr>FailFast := False\<rparr>) (1000, [])
        (example_collector example_queries)) = None
   \<and> outside (getMetrics example_env ((example_cfg example_queries)\<lparr>FailFast := False\<rparr>) (1000, [])
        (example_collector example_queries)) = (1090, [''{ users }'', ''{ down }'', ''{ orders }''])
   \<and> map (\<lambda>q. map (\<lambda>m. value_child (Collector m) []) (Metrics q))
        (sets (getMetrics example_env ((example_cfg example_queries)\<lparr>FailFast := False\<rparr>) (1000, [])
           (example_collector example_queries))) = [[Some (7/2)], [None], [Some (7/2)]]
   \<and> returned (getMetrics example_env (example_cfg [example_broken, example_users]) (1000, [])
        (example_collector [example_broken, example_users])) = Some ''SyntaxError''
   \<and> outside (getMetrics example_env (example_cfg [example_broken, example_users]) (1000, [])
        (example_collector [example_broken, example_users])) = (1030, [''{ broken }''])"
proof -
  let ?cs = "cachedQuerySet (example_collector example_queries)"
  let ?u = "?cs ! 0" and ?d = "?cs ! 1" and ?o = "?cs ! 2"
  let ?r = "\<lambda>cfg. getMetrics_queries example_env cfg (1000, []) None [?u]"
  have cs: "?cs = [?u] @ ?d # [?o]"
    by (simp add: example_defs)
  have pre: "?r cfg = Return None (sets (?r cfg)) (1030, [''{ users }'']) (decoded (?r cfg))" for cfg
    by (simp add: example_defs eval_defs)
  have fail: "(GraphqlQuery example_env (1030, [''{ users }'']) (Query ?d) =
                 (Inl ''timeout'', (1060, [''{ users }'', ''{ down }''])) \<and> decoded (?r cfg) = decoded (?r cfg))
            \<or> (\<exists>result. GraphqlQuery example_env (1030, [''{ users }'']) (Query ?d) =
                   (Inr result, (1060, [''{ users }'', ''{ down }'']))
                 \<and> Unmarshal result (decoded (?r cfg)) = (decoded (?r cfg), Some ''timeout''))" for cfg
    by (simp add: example_defs)
  note inst = failFast_aborts_else_continues [OF pre fail, of _ "[?o]"]
  have a: "getMetrics example_env (example_cfg example_queries) (1000, []) (example_collector example_queries) =
      Return (Some ''timeout'') (sets (?r (example_cfg example_queries)) @ ?d # [?o])
        (1060, [''{ users }'', ''{ down }'']) (decoded (?r (example_cfg example_queries)))"
    unfolding getMetrics_def by (subst cs, subst inst) (simp add: example_cfg_def)
  have b: "getMetrics example_env ((example_cfg example_queries)\<lparr>FailFast := False\<rparr>) (1000, [])
       (example_collector example_queries) =
      foldr continue_with (sets (?r ((example_cfg example_queries)\<lparr>FailFast := False\<rparr>)) @ [?d])
        (getMetrics_queries example_env ((example_cfg example_queries)\<lparr>FailFast := False\<rparr>)
           (1060, [''{ users }'', ''{ down }''])
           (decoded (?r ((example_cfg example_queries)\<lparr>FailFast := False\<rparr>))) [?o])"
    unfolding getMetrics_def by (subst cs, subst inst) (simp add: example_cfg_def)
  let ?bs = "cachedQuerySet (example_collector [example_broken, example_users])"
  have bs: "?bs = [] @ (?bs ! 0) # [?bs ! 1]"
    by (simp add: example_defs)
  have none: "getMetrics_queries example_env (example_cfg [example_broken, example_users]) (1000, [])
      None [] = Return None [] (1000, []) None"
    by simp
  have broken: "(GraphqlQuery example_env (1000, []) (Query (?bs ! 0)) =
                 (Inl ''SyntaxError'', (1030, [''{ broken }''])) \<and> None = None)
            \<or> (\<exists>result. GraphqlQuery example_env (1000, []) (Query (?bs ! 0)) =
                   (Inr result, (1030, [''{ broken }'']))
                 \<and> Unmarshal result None = (None, Some ''SyntaxError''))"
    by (simp add: example_defs)
  have c: "getMetrics example_env (example_cfg [example_broken, example_users]) (1000, [])
       (example_collector [example_broken, example_users]) =
      Return (Some ''SyntaxError'') ([] @ (?bs ! 0) # [?bs ! 1]) (1030, [''{ broken }'']) None"
    unfolding getMetrics_def
    by (subst bs, subst failFast_aborts_else_continues [OF none broken]) (simp add: example_cfg_def)
  show ?thesis
    unfolding a b c by (simp add: example_defs eval_defs)
qed

lemma fold_Unmarshal_member_no_data:
  "list_all (\<lambda>(k, v). \<not> isDataKey k) members \<Longrightarrow> fold Unmarshal_member members (g, err) = (g, err)"
  by (induction members) auto

lemma isDataKey_data: "isDataKey ''data''"
  by (simp add: isDataKey_def)

lemma fold_store_other:
  "k \<notin> fst ` set kvs \<Longrightarrow> fold (\<lambda>(k', v') m. m(k' \<mapsto> v')) kvs d k = d k"
  by (induction kvs arbitrary: d) auto

lemma Unmarshal_no_data:
  "list_all (\<lambda>(k, v). \<not> isDataKey k) members \<Longrightarrow>
     Unmarshal (Document (JObject members)) (Some g) = (Some g, None)"
  by (simp add: fold_Unmarshal_member_no_data)

lemma Unmarshal_data_object:
  "Unmarshal (Document (JObject [(''data'', JObject kvs)])) gql =
     (Some \<lparr>Data = Some (fold (\<lambda>(k', v') m. m(k' \<mapsto> v')) kvs
         (case gql of None \<Rightarrow> Map.empty
          | Some g \<Rightarrow> (case Data g of None \<Rightarrow> Map.empty | Some m \<Rightarrow> m)))\<rparr>, None)"
  by (cases gql) (simp_all add: isDataKey_data)

text \<open>
  Claim C10. In a pass over two query sets, let the first response be an object whose
  \<open>data\<close> member is an object, decoded to \<open>d1\<close>. If the second response is an object
  without a \<open>data\<close> member, the metrics of the second query set are extracted from
  \<open>d1\<close>; if its \<open>data\<close> member is an object, they are extracted from \<open>d1\<close> overwritten
  with the members of that object, so every key of \<open>d1\<close> that the second response omits is
  still bound to the value from the first. In neither case is the second query set skipped.
\<close>

theorem earlier_data_reaches_later_query:
  assumes "GraphqlQuery e w (Query q1) = (Inr (Document (JObject [(''data'', JObject kvs1)])), w1)"
    and "GraphqlQuery e w1 (Query q2) = (Inr (Document (JObject members)), w2)"
    and "d1 = fold (\<lambda>(k', v') m. m(k' \<mapsto> v')) kvs1 Map.empty"
    and "(list_all (\<lambda>(k, v). \<not> isDataKey k) members \<and> kvs2 = [])
       \<or> members = [(''data'', JObject kvs2)]"
    and "d2 = fold (\<lambda>(k', v') m. m(k' \<mapsto> v')) kvs2 d1"
    and "cachedQuerySet c = [q1, q2]"
  shows "getMetrics e cfg w c =
           (case getMetrics_metrics e d1 (Metrics q1) of
              None \<Rightarrow> Panic
            | Some ms1 \<Rightarrow>
                (case getMetrics_metrics e d2 (Metrics q2) of
                   None \<Rightarrow> Panic
                 | Some ms2 \<Rightarrow>
                     Return None [q1\<lparr>Metrics := ms1\<rparr>, q2\<lparr>Metrics := ms2\<rparr>] w2
                       (Some \<lparr>Data = Some d2\<rparr>)))
       \<and> (\<forall>k. k \<notin> fst ` set kvs2 \<longrightarrow> d2 k = d1 k)"
proof -
  have u1: "Unmarshal (Document (JObject [(''data'', JObject kvs1)])) None =
      (Some \<lparr>Data = Some d1\<rparr>, None)"
    by (simp add: Unmarshal_data_object assms(3) del: Unmarshal.simps)
  have u2: "Unmarshal (Document (JObject members)) (Some \<lparr>Data = Some d1\<rparr>) =
      (Some \<lparr>Data = Some d2\<rparr>, None)"
    using assms(4)
  proof
    assume "list_all (\<lambda>(k, v). \<not> isDataKey k) members \<and> kvs2 = []"
    then show ?thesis
      by (simp add: Unmarshal_no_data assms(5) del: Unmarshal.simps)
  next
    assume "members = [(''data'', JObject kvs2)]"
    then show ?thesis
      by (simp add: Unmarshal_data_object assms(5) del: Unmarshal.simps)
  qed
  show ?thesis
    by (simp add: getMetrics_def assms(1,2,5,6) u1 u2 fold_store_other
        split: option.splits del: Unmarshal.simps)
qed

text \<open>
  On the example server: the answer to \<open>{ orders }\<close> has no \<open>data\<close> member, and
  the gauge of that query set is set from the \<open>users\<close> member of the answer to
  \<open>{ users }\<close>.
\<close>

theorem earlier_data_reaches_later_query_witness:
  "returned (getMetrics example_env (example_cfg [example_users, example_orders]) (1000, [])
       (example_collector [example_users, example_orders])) = None
   \<and> outside (getMetrics example_env (example_cfg [example_users, example_orders]) (1000, [])
       (example_collector [example_users, example_orders])) = (1060, [''{ users }'', ''{ orders }''])
   \<and> map (\<lambda>q. (Query q, map (\<lambda>m. (Extractor m, value_child (Collector m) [])) (Metrics q)))
       (sets (getMetrics example_env (example_cfg [example_users, example_orders]) (1000, [])
          (example_collector [example_users, example_orders]))) =
     [(''{ users }'', [(''users'', Some (7/2))]), (''{ orders }'', [(''users'', Some (7/2))])]"
proof -
  let ?c = "example_collector [example_users, example_orders]"
  let ?q1 = "cachedQuerySet ?c ! 0" and ?q2 = "cachedQuerySet ?c ! 1"
  let ?d1 = "[''users'' \<mapsto> JString ''3.5'']"
  have 1: "GraphqlQuery example_env (1000, []) (Query ?q1) =
      (Inr (Document (JObject [(''data'', JObject [(''users'', JString ''3.5'')])])), (1030, [''{ users }'']))"
    by (simp add: example_defs)
  have 2: "GraphqlQuery example_env (1030, [''{ users }'']) (Query ?q2) =
      (Inr (Document (JObject [(''errors'', JArray [])])), (1060, [''{ users }'', ''{ orders }'']))"
    by (simp add: example_defs)
  have 3: "?d1 = fold (\<lambda>(k', v') m. m(k' \<mapsto> v')) [(''users'', JString ''3.5'')] Map.empty"
    by simp
  have 4: "(list_all (\<lambda>(k, v). \<not> isDataKey k) [(''errors'', JArray [])] \<and> [] = ([] :: (string \<times> json) list))
      \<or> [(''errors'', JArray [])] = [(''data'', JObject [])]"
    by (simp add: isDataKey_def)
  have 5: "?d1 = fold (\<lambda>(k', v') m. m(k' \<mapsto> v')) [] ?d1"
    by simp
  have 6: "cachedQuerySet ?c = [?q1, ?q2]"
    by (simp add: example_defs)
  from earlier_data_reaches_later_query [OF 1 2 3 4 5 6, of "example_cfg [example_users, example_orders]"]
  show ?thesis
    by (simp add: example_defs eval_defs)
qed

section \<open>The timestamp of the cache\<close>

lemma updaterIsRunning_updateMetrics_locked:
  "updateMetrics_locked e cfg w c = Some (err, c', w') \<Longrightarrow> updaterIsRunning c' = updaterIsRunning c"
  by (auto simp: updateMetrics_locked_def split: outcome.splits option.splits)





section \<open>Goroutines: single flight and exclusive access\<close>

lemmas run_defs = run_def example_boot_def boot_def step_def atomicUpdate_def updateMetrics_due_def
  updateMetrics_locked_def tasks_def holders_def

lemma length_filter_update:
  "i < length xs \<Longrightarrow>
     length (filter P (xs[i := y])) + (if P (xs ! i) then 1 else 0) =
     length (filter P xs) + (if P y then 1 else 0)"
proof (induction xs arbitrary: i)
  case Nil
  then show ?case by simp
next
  case (Cons x xs)
  show ?case
  proof (cases i)
    case 0
    then show ?thesis by simp
  next
    case (Suc j)
    with Cons.prems have "j < length xs" by simp
    from Cons.IH [OF this] Suc show ?thesis by simp
  qed
qed

lemma step_single_flight:
  assumes "step e cfg s i = Some s'" and "single_flight s"
  shows "single_flight s'"
proof -
  from assms(1) have i: "i < length (threads s)"
    by (auto simp: step_def split: if_splits)
  note upd = length_filter_update [OF i, of is_task]
  show ?thesis
  proof (cases "threads s ! i")
    case Scrape_atomicUpdate
    with assms upd [of "Scrape_spawn (\<not> updaterIsRunning (collector s))"] show ?thesis
      by (auto simp: step_def single_flight_def tasks_def atomicUpdate_def
          simp del: length_0_conv split: if_splits)
  next
    case (Scrape_spawn start)
    with assms upd [of Scrape_lock] show ?thesis
      by (auto simp: step_def single_flight_def tasks_def simp del: length_0_conv split: if_splits)
  next
    case Scrape_lock
    with assms upd [of Scrape_emit] show ?thesis
      by (auto simp: step_def single_flight_def tasks_def simp del: length_0_conv split: if_splits)
  next
    case Scrape_emit
    with assms upd [of "Scrape_done (fst (Collect_querySets (cachedQuerySet (collector s))))"]
    show ?thesis
      by (auto simp: step_def single_flight_def tasks_def simp del: length_0_conv
          split: if_splits prod.splits)
  next
    case (Scrape_done out)
    with assms show ?thesis by (auto simp: step_def split: if_splits)
  next
    case Refresh_check
    with assms upd [of Refresh_lock] upd [of Refresh_clear] show ?thesis
      by (auto simp: step_def single_flight_def tasks_def simp del: length_0_conv split: if_splits)
  next
    case Refresh_lock
    with assms upd [of Refresh_pass] show ?thesis
      by (auto simp: step_def single_flight_def tasks_def simp del: length_0_conv split: if_splits)
  next
    case Refresh_pass
    with assms upd [of Refresh_clear] show ?thesis
      by (auto simp: step_def single_flight_def tasks_def simp del: length_0_conv
          split: if_splits option.splits dest: updaterIsRunning_updateMetrics_locked)
  next
    case Refresh_clear
    with assms upd [of Refresh_done] show ?thesis
      by (auto simp: step_def single_flight_def tasks_def simp del: length_0_conv split: if_splits)
  next
    case Refresh_done
    with assms show ?thesis by (auto simp: step_def split: if_splits)
  qed
qed

lemma exec_single_flight:
  assumes "single_flight s"
  shows "single_flight (exec e cfg s ev)"
proof (cases ev)
  case Arrive
  with assms show ?thesis by (simp add: single_flight_def tasks_def)
next
  case (Step i)
  with assms show ?thesis
    by (cases "step e cfg s i") (auto intro: step_single_flight)
qed

lemma run_single_flight: "single_flight s \<Longrightarrow> single_flight (run e cfg evs s)"
  unfolding run_def by (induction evs arbitrary: s) (simp_all add: exec_single_flight)

lemma boot_single_flight: "single_flight (boot (newGraphqlCollector ne gsp cfg) w)"
  by (simp add: single_flight_def tasks_def boot_def newGraphqlCollector_def)

lemma step_exclusive_access:
  assumes "step e cfg s i = Some s'" and "exclusive_access s"
  shows "exclusive_access s'"
proof -
  from assms(1) have i: "i < length (threads s)"
    by (auto simp: step_def split: if_splits)
  note upd = length_filter_update [OF i, of is_holder]
  show ?thesis
  proof (cases "threads s ! i")
    case Scrape_atomicUpdate
    with assms upd [of "Scrape_spawn (\<not> updaterIsRunning (collector s))"] show ?thesis
      by (auto simp: step_def exclusive_access_def holders_def atomicUpdate_def
          simp del: length_0_conv split: if_splits)
  next
    case (Scrape_spawn start)
    with assms upd [of Scrape_lock] show ?thesis
      by (auto simp: step_def exclusive_access_def holders_def simp del: length_0_conv
          split: if_splits)
  next
    case Scrape_lock
    with assms upd [of Scrape_emit] show ?thesis
      by (auto simp: step_def exclusive_access_def holders_def simp del: length_0_conv
          split: if_splits)
  next
    case Scrape_emit
    with assms upd [of "Scrape_done (fst (Collect_querySets (cachedQuerySet (collector s))))"]
    show ?thesis
      by (auto simp: step_def exclusive_access_def holders_def simp del: length_0_conv
          split: if_splits prod.splits)
  next
    case (Scrape_done out)
    with assms show ?thesis by (auto simp: step_def split: if_splits)
  next
    case Refresh_check
    with assms upd [of Refresh_lock] upd [of Refresh_clear] show ?thesis
      by (auto simp: step_def exclusive_access_def holders_def simp del: length_0_conv
          split: if_splits)
  next
    case Refresh_lock
    with assms upd [of Refresh_pass] show ?thesis
      by (auto simp: step_def exclusive_access_def holders_def simp del: length_0_conv
          split: if_splits)
  next
    case Refresh_pass
    with assms upd [of Refresh_clear] show ?thesis
      by (auto simp: step_def exclusive_access_def holders_def simp del: length_0_conv
          split: if_splits option.splits)
  next
    case Refresh_clear
    with assms upd [of Refresh_done] show ?thesis
      by (auto simp: step_def exclusive_access_def holders_def simp del: length_0_conv
          split: if_splits)
  next
    case Refresh_done
    with assms show ?thesis by (auto simp: step_def split: if_splits)
  qed
qed

lemma exec_exclusive_access:
  assumes "exclusive_access s"
  shows "exclusive_access (exec e cfg s ev)"
proof (cases ev)
  case Arrive
  with assms show ?thesis by (simp add: exclusive_access_def holders_def)
next
  case (Step i)
  with assms show ?thesis
    by (cases "step e cfg s i") (auto intro: step_exclusive_access)
qed

lemma run_exclusive_access: "exclusive_access s \<Longrightarrow> exclusive_access (run e cfg evs s)"
  unfolding run_def by (induction evs arbitrary: s) (simp_all add: exec_exclusive_access)

lemma boot_exclusive_access: "exclusive_access (boot c w)"
  by (simp add: exclusive_access_def holders_def boot_def)

lemma holder_present:
  "t \<in> set ts \<Longrightarrow> is_holder t \<Longrightarrow> 0 < length (filter is_holder ts)"
  by (induction ts) auto

lemma two_holders:
  "length (filter is_holder ts) \<le> 1 \<Longrightarrow> Refresh_pass \<in> set ts \<Longrightarrow> Scrape_emit \<notin> set ts"
  by (induction ts) (auto simp del: length_0_conv dest: holder_present split: if_splits)

text \<open>
  Claim C3. In every state that the process reaches from its start, under any schedule of
  scrapes and goroutine steps: there is at most one refresh task, and the flag is set
  exactly when there is one, so it is clear whenever the task has finished. A scrape that
  runs the critical section of \<open>atomicUpdate\<close> while the flag is set gets \<open>start = false\<close>
  and adds no task. A refresh in its pass moves on to clearing the flag whatever error the
  pass returned (unless the pass panics, which ends the process), and clearing the flag
  ends the task.
\<close>

theorem single_flight_refresh:
  assumes "s = run e cfg evs (boot (newGraphqlCollector NewExtractor GetSortedPaths cfg) w)"
  shows "tasks s \<le> 1
       \<and> (updaterIsRunning (collector s) \<longleftrightarrow> tasks s = 1)
       \<and> (\<forall>i. i < length (threads s) \<and> threads s ! i = Scrape_atomicUpdate
              \<and> updaterIsRunning (collector s) \<and> \<not> crashed s \<longrightarrow>
            (\<exists>s'. step e cfg s i = Some s' \<and> threads s' = (threads s)[i := Scrape_spawn False]
                 \<and> tasks s' = tasks s))
       \<and> (\<forall>i. i < length (threads s) \<and> threads s ! i = Refresh_pass \<and> \<not> crashed s \<longrightarrow>
            (\<exists>s'. step e cfg s i = Some s' \<and> (crashed s' \<or> threads s' ! i = Refresh_clear)))
       \<and> (\<forall>i. i < length (threads s) \<and> threads s ! i = Refresh_clear \<and> \<not> crashed s \<longrightarrow>
            (\<exists>s'. step e cfg s i = Some s' \<and> threads s' ! i = Refresh_done
                 \<and> \<not> updaterIsRunning (collector s') \<and> tasks s' = 0))"
proof -
  have sf: "single_flight s"
    unfolding assms by (rule run_single_flight) (rule boot_single_flight)
  have a: "tasks s \<le> 1" and b: "updaterIsRunning (collector s) \<longleftrightarrow> tasks s = 1"
    using sf by (simp_all add: single_flight_def)
  have c: "\<exists>s'. step e cfg s i = Some s' \<and> threads s' = (threads s)[i := Scrape_spawn False]
                 \<and> tasks s' = tasks s"
    if "i < length (threads s)" "threads s ! i = Scrape_atomicUpdate"
       "updaterIsRunning (collector s)" "\<not> crashed s" for i
    using that length_filter_update [of i "threads s" is_task "Scrape_spawn False"]
    by (simp add: step_def atomicUpdate_def tasks_def)
  have d: "\<exists>s'. step e cfg s i = Some s' \<and> (crashed s' \<or> threads s' ! i = Refresh_clear)"
    if "i < length (threads s)" "threads s ! i = Refresh_pass" "\<not> crashed s" for i
    using that by (auto simp: step_def split: option.splits)
  have f: "\<exists>s'. step e cfg s i = Some s' \<and> threads s' ! i = Refresh_done
                 \<and> \<not> updaterIsRunning (collector s') \<and> tasks s' = 0"
    if "i < length (threads s)" "threads s ! i = Refresh_clear" "\<not> crashed s" for i
  proof -
    from that have st: "step e cfg s i =
        Some (s\<lparr>collector := (collector s)\<lparr>updaterIsRunning := False\<rparr>,
                threads := (threads s)[i := Refresh_done]\<rparr>)"
      by (simp add: step_def)
    from step_single_flight [OF st sf] that show ?thesis
      by (simp add: st single_flight_def)
  qed
  from a b c d f show ?thesis by blast
qed

text \<open>
  On the example server. Two scrapes arrive; the first runs \<open>atomicUpdate\<close> and spawns
  the refresh: there is one task. The second scrape then gets \<open>start = false\<close>. The
  refresh makes its pass, which returns the timeout, and goes on to clear the flag; once it
  has, the flag is clear and no task is left.
\<close>

theorem single_flight_refresh_witness:
  "tasks (run example_env (example_cfg example_queries)
       [Arrive, Arrive, Step 0, Step 0] example_boot) = 1
   \<and> map_option threads (step example_env (example_cfg example_queries)
       (run example_env (example_cfg example_queries)
          [Arrive, Arrive, Step 0, Step 0] example_boot) 1) =
     Some [Scrape_lock, Scrape_spawn False, Refresh_check]
   \<and> map_option threads (step example_env (example_cfg example_queries)
       (run example_env (example_cfg example_queries)
          [Arrive, Arrive, Step 0, Step 0, Step 2, Step 2] example_boot) 2) =
     Some [Scrape_lock, Scrape_atomicUpdate, Refresh_clear]
   \<and> map_option (\<lambda>s'. (threads s', updaterIsRunning (collector s'), tasks s'))
       (step example_env (example_cfg example_queries)
          (run example_env (example_cfg example_queries)
             [Arrive, Arrive, Step 0, Step 0, Step 2, Step 2, Step 2] example_boot) 2) =
     Some ([Scrape_lock, Scrape_atomicUpdate, Refresh_done], False, 0)"
proof -
  let ?e = example_env and ?cfg = "example_cfg example_queries"
  let ?s1 = "run ?e ?cfg [Arrive, Arrive, Step 0, Step 0] example_boot"
  let ?s2 = "run ?e ?cfg [Arrive, Arrive, Step 0, Step 0, Step 2, Step 2] example_boot"
  let ?s3 = "run ?e ?cfg [Arrive, Arrive, Step 0, Step 0, Step 2, Step 2, Step 2] example_boot"
  have boot: "example_boot = boot (newGraphqlCollector example_NewExtractor (\<lambda>x. []) ?cfg) (1000, [])"
    by (simp only: example_boot_def example_collector_def)
  have s1: "threads ?s1 = [Scrape_lock, Scrape_atomicUpdate, Refresh_check]"
    "updaterIsRunning (collector ?s1)" "\<not> crashed ?s1"
    by (simp_all add: run_defs example_defs eval_defs)
  have s2: "threads ?s2 = [Scrape_lock, Scrape_atomicUpdate, Refresh_pass]" "\<not> crashed ?s2"
    by (simp_all add: run_defs example_defs eval_defs)
  have s3: "threads ?s3 = [Scrape_lock, Scrape_atomicUpdate, Refresh_clear]" "\<not> crashed ?s3"
    by (simp_all add: run_defs example_defs eval_defs)
  note t1 = single_flight_refresh [of ?s1 ?e ?cfg _ example_NewExtractor "\<lambda>x. []" "(1000, [])",
      folded boot, OF refl]
  note t2 = single_flight_refresh [of ?s2 ?e ?cfg _ example_NewExtractor "\<lambda>x. []" "(1000, [])",
      folded boot, OF refl]
  note t3 = single_flight_refresh [of ?s3 ?e ?cfg _ example_NewExtractor "\<lambda>x. []" "(1000, [])",
      folded boot, OF refl]
  from t1 s1(2) have a: "tasks ?s1 = 1"
    by blast
  from t1 have "1 < length (threads ?s1) \<and> threads ?s1 ! 1 = Scrape_atomicUpdate
        \<and> updaterIsRunning (collector ?s1) \<and> \<not> crashed ?s1 \<longrightarrow>
      (\<exists>s'. step ?e ?cfg ?s1 1 = Some s' \<and> threads s' = (threads ?s1)[1 := Scrape_spawn False]
           \<and> tasks s' = tasks ?s1)"
    by blast
  with s1 have b: "map_option threads (step ?e ?cfg ?s1 1) =
      Some [Scrape_lock, Scrape_spawn False, Refresh_check]"
    by auto
  from t2 have "2 < length (threads ?s2) \<and> threads ?s2 ! 2 = Refresh_pass \<and> \<not> crashed ?s2 \<longrightarrow>
      (\<exists>s'. step ?e ?cfg ?s2 2 = Some s' \<and> (crashed s' \<or> threads s' ! 2 = Refresh_clear))"
    by blast
  with s2 have "\<exists>s'. step ?e ?cfg ?s2 2 = Some s' \<and> (crashed s' \<or> threads s' ! 2 = Refresh_clear)"
    by simp
  then have c: "map_option threads (step ?e ?cfg ?s2 2) =
      Some [Scrape_lock, Scrape_atomicUpdate, Refresh_clear]"
    by (simp add: run_defs example_defs eval_defs)
  from t3 have "2 < length (threads ?s3) \<and> threads ?s3 ! 2 = Refresh_clear \<and> \<not> crashed ?s3 \<longrightarrow>
      (\<exists>s'. step ?e ?cfg ?s3 2 = Some s' \<and> threads s' ! 2 = Refresh_done
           \<and> \<not> updaterIsRunning (collector s') \<and> tasks s' = 0)"
    by blast
  with s3 obtain s' where s': "step ?e ?cfg ?s3 2 = Some s'" "threads s' ! 2 = Refresh_done"
      "\<not> updaterIsRunning (collector s')" "tasks s' = 0"
    by auto
  have "map_option threads (step ?e ?cfg ?s3 2) = Some [Scrape_lock, Scrape_atomicUpdate, Refresh_done]"
    by (simp add: run_defs example_defs eval_defs)
  with s' have d: "map_option (\<lambda>s'. (threads s', updaterIsRunning (collector s'), tasks s'))
       (step ?e ?cfg ?s3 2) = Some ([Scrape_lock, Scrape_atomicUpdate, Refresh_done], False, 0)"
    by simp
  from a b c d show ?thesis by simp
qed

text \<open>
  Claim C9, amended. In every state that the process reaches, under any schedule:
  \<open>accessMu\<close> has at most one holder and is locked exactly when it has one; while a
  refresh is in its pass the mutex is locked and no scrape is emitting; a scrape at
  \<open>accessMu.Lock()\<close> cannot step exactly when the mutex is locked (or the process has
  ended), so it waits until a refresh pass in flight has returned; and a scrape that holds
  the mutex sends the collectors exactly as they are cached at that moment.
\<close>

theorem scrape_waits_for_access:
  assumes "s = run e cfg evs (boot c w)"
  shows "holders s \<le> 1
       \<and> (accessMu s \<longleftrightarrow> holders s = 1)
       \<and> (Refresh_pass \<in> set (threads s) \<longrightarrow> accessMu s \<and> Scrape_emit \<notin> set (threads s))
       \<and> (\<forall>i. i < length (threads s) \<and> threads s ! i = Scrape_lock \<longrightarrow>
            (step e cfg s i = None \<longleftrightarrow> accessMu s \<or> crashed s))
       \<and> (\<forall>i. i < length (threads s) \<and> threads s ! i = Scrape_emit \<and> \<not> crashed s \<longrightarrow>
            (\<exists>s'. step e cfg s i = Some s'
                 \<and> threads s' ! i = Scrape_done (all_collectors (cachedQuerySet (collector s)))))"
proof -
  have ea: "exclusive_access s"
    unfolding assms by (rule run_exclusive_access) (rule boot_exclusive_access)
  have a: "holders s \<le> 1" and b: "accessMu s \<longleftrightarrow> holders s = 1"
    using ea by (simp_all add: exclusive_access_def)
  have c: "accessMu s \<and> Scrape_emit \<notin> set (threads s)" if "Refresh_pass \<in> set (threads s)"
  proof -
    from that have "0 < holders s"
      unfolding holders_def by (rule holder_present) simp
    with a b have "accessMu s" by simp
    moreover from a that have "Scrape_emit \<notin> set (threads s)"
      unfolding holders_def by (rule two_holders)
    ultimately show ?thesis by simp
  qed
  have d: "step e cfg s i = None \<longleftrightarrow> accessMu s \<or> crashed s"
    if "i < length (threads s)" "threads s ! i = Scrape_lock" for i
    using that by (simp add: step_def)
  have f: "\<exists>s'. step e cfg s i = Some s'
                 \<and> threads s' ! i = Scrape_done (all_collectors (cachedQuerySet (collector s)))"
    if "i < length (threads s)" "threads s ! i = Scrape_emit" "\<not> crashed s" for i
    using that by (simp add: step_def Collect_querySets_eq)
  from a b c d f show ?thesis by blast
qed

text \<open>
  On the example server. While the refresh spawned by the first scrape is in its pass, the
  mutex is locked and that scrape cannot step. In another schedule the scrape takes the
  mutex before the refresh has started its pass, and sends the collectors as compiled,
  without any child.
\<close>

theorem scrape_waits_for_access_witness:
  "holders (run example_env (example_cfg example_queries)
       [Arrive, Arrive, Step 0, Step 0, Step 2, Step 2] example_boot) = 1
   \<and> accessMu (run example_env (example_cfg example_queries)
       [Arrive, Arrive, Step 0, Step 0, Step 2, Step 2] example_boot)
   \<and> step example_env (example_cfg example_queries)
       (run example_env (example_cfg example_queries)
          [Arrive, Arrive, Step 0, Step 0, Step 2, Step 2] example_boot) 0 = None
   \<and> map_option (\<lambda>s'. threads s' ! 0)
       (step example_env (example_cfg example_queries)
          (run example_env (example_cfg example_queries)
             [Arrive, Step 0, Step 0, Step 0] example_boot) 0) =
     Some (Scrape_done (all_collectors (cachedQuerySet (example_collector example_queries))))"
proof -
  let ?e = example_env and ?cfg = "example_cfg example_queries"
  let ?s2 = "run ?e ?cfg [Arrive, Arrive, Step 0, Step 0, Step 2, Step 2] example_boot"
  let ?s4 = "run ?e ?cfg [Arrive, Step 0, Step 0, Step 0] example_boot"
  have s2: "threads ?s2 = [Scrape_lock, Scrape_atomicUpdate, Refresh_pass]"
    by (simp add: run_defs example_defs eval_defs)
  have s4: "threads ?s4 = [Scrape_emit, Refresh_check]" "\<not> crashed ?s4"
    "cachedQuerySet (collector ?s4) = cachedQuerySet (example_collector example_queries)"
    by (simp_all add: run_defs example_defs eval_defs)
  note t2 = scrape_waits_for_access [of ?s2 ?e ?cfg _ "example_collector example_queries" "(1000, [])",
      folded example_boot_def, OF refl]
  note t4 = scrape_waits_for_access [of ?s4 ?e ?cfg _ "example_collector example_queries" "(1000, [])",
      folded example_boot_def, OF refl]
  from t2 have "Refresh_pass \<in> set (threads ?s2) \<longrightarrow> accessMu ?s2 \<and> Scrape_emit \<notin> set (threads ?s2)"
    by blast
  with s2 have a: "accessMu ?s2"
    by simp
  from t2 have "accessMu ?s2 \<longleftrightarrow> holders ?s2 = 1"
    by blast
  with a have b: "holders ?s2 = 1"
    by simp
  from t2 have "0 < length (threads ?s2) \<and> threads ?s2 ! 0 = Scrape_lock \<longrightarrow>
      (step ?e ?cfg ?s2 0 = None \<longleftrightarrow> accessMu ?s2 \<or> crashed ?s2)"
    by blast
  with s2 a have c: "step ?e ?cfg ?s2 0 = None"
    by simp
  from t4 have "0 < length (threads ?s4) \<and> threads ?s4 ! 0 = Scrape_emit \<and> \<not> crashed ?s4 \<longrightarrow>
      (\<exists>s'. step ?e ?cfg ?s4 0 = Some s'
           \<and> threads s' ! 0 = Scrape_done (all_collectors (cachedQuerySet (collector ?s4))))"
    by blast
  with s4 have d: "map_option (\<lambda>s'. threads s' ! 0) (step ?e ?cfg ?s4 0) =
      Some (Scrape_done (all_collectors (cachedQuerySet (example_collector example_queries))))"
    by auto
  from a b c d show ?thesis by simp
qed

text \<open>
  Claim C9 as stated has a scrape never wait for a refresh. In the first schedule above
  the scrape is at \<open>accessMu.Lock()\<close> while the refresh it has spawned holds the mutex
  for its pass: the scrape cannot step, and it starts emitting only after the pass has
  returned.
\<close>

theorem scrape_blocked_by_refresh:
  "threads (run example_env (example_cfg example_queries)
       [Arrive, Arrive, Step 0, Step 0, Step 2, Step 2] example_boot) =
     [Scrape_lock, Scrape_atomicUpdate, Refresh_pass]
   \<and> \<not> crashed (run example_env (example_cfg example_queries)
       [Arrive, Arrive, Step 0, Step 0, Step 2, Step 2] example_boot)
   \<and> step example_env (example_cfg example_queries)
       (run example_env (example_cfg example_queries)
          [Arrive, Arrive, Step 0, Step 0, Step 2, Step 2] example_boot) 0 = None
   \<and> threads (run example_env (example_cfg example_queries)
       [Arrive, Arrive, Step 0, Step 0, Step 2, Step 2, Step 0, Step 2, Step 0] example_boot) =
     [Scrape_emit, Scrape_atomicUpdate, Refresh_clear]"
  by (simp add: run_defs example_defs eval_defs)

end
